theory Spec2Isabelle
  imports Main "HOL-Library.AList" "HOL-Library.FSet"
begin

section \<open>The collaboration server (server source, part 000)\<close>

subsection \<open>Data\<close>

text \<open>
  A JSON value as \<open>express.json()\<close> hands it over in \<open>req.body\<close>. A field that is
  absent from the body reads as \<open>undefined\<close>; that is \<open>None\<close> of \<open>json option\<close>.
  Numbers are only stored and returned, never computed with.
\<close>

datatype json =
    JNull
  | JBool bool
  | JNumber int
  | JString string
  | JArray "json list"
  | JObject "(string \<times> json) list"

text \<open>\<open>new Date()\<close>: milliseconds since the epoch, read from the clock by the caller.\<close>

type_synonym timestamp = nat

text \<open>
  The value type of \<open>documentMetadata\<close> (lines 12-19). \<open>collaborators\<close> is a
  \<open>Set<string>\<close>; \<open>title\<close> can become \<open>undefined\<close> through the title endpoint.
\<close>

record metadata =
  title :: "json option"
  lastModified :: timestamp
  collaborators :: "string fset"

text \<open>
  What the server does with a \<open>Y.Doc\<close>: it creates it, registers \<open>update\<close>
  listeners on it and destroys it. Every listener is the closure of lines 175-180 and
  differs only in the \<open>docName\<close> it captured. \<open>destroy()\<close> drops every listener
  of the document.
\<close>

record ydoc =
  destroyed :: bool
  update_handlers :: "string list"

text \<open>
  A \<open>WebSocket\<close> object \<open>ws\<close> as the connection handler leaves it: the \<open>close\<close>
  listener of lines 159-162 with the metadata object and the collaborator id it captured,
  the arguments of the \<open>setupWSConnection\<close> call that returned normally, and whether
  the handler called \<open>ws.close()\<close>.
\<close>

record socket =
  room :: string
  close_listener :: "(nat \<times> string) option"
  sync_args :: "(string \<times> nat option) option"
  close_called :: bool

text \<open>
  The two module-level maps hold references: a JavaScript \<open>Map\<close> is an association
  list in insertion order (\<open>set\<close> is \<open>AList.update\<close>, \<open>delete\<close> is
  \<open>AList.delete\<close>, \<open>get\<close> is \<open>map_of\<close>), and the objects live in stores
  indexed by address, since closures keep metadata objects and documents alive and
  mutate them after the maps have dropped them.
\<close>

record server =
  documents :: "(string \<times> nat) list"
  documentMetadata :: "(string \<times> nat) list"
  ydocs :: "nat \<Rightarrow> ydoc"
  ydoc_next :: nat
  metas :: "nat \<Rightarrow> metadata"
  meta_next :: nat
  sockets :: "nat \<Rightarrow> socket option"
  sock_next :: nat

definition new_YDoc :: ydoc where
  "new_YDoc = \<lparr>destroyed = False, update_handlers = []\<rparr>"

definition new_metadata :: "json option \<Rightarrow> timestamp \<Rightarrow> metadata" where
  "new_metadata t now = \<lparr>title = t, lastModified = now, collaborators = {||}\<rparr>"

definition init :: server where
  "init = \<lparr>documents = [], documentMetadata = [],
            ydocs = (\<lambda>_. new_YDoc), ydoc_next = 0,
            metas = (\<lambda>_. new_metadata None 0), meta_next = 0,
            sockets = (\<lambda>_. None), sock_next = 0\<rparr>"

subsection \<open>REST endpoints\<close>

record doc_summary =
  doc_id :: string
  doc_title :: "json option"
  doc_lastModified :: timestamp
  collaboratorCount :: nat

datatype body =
    DocList "doc_summary list"
  | Doc doc_summary
  | Error string
  | Created string json string
  | Success
  | Healthy timestamp nat nat

text \<open>A response is the status code and the JSON body; \<open>res.json\<close> alone sends 200.\<close>

type_synonym response = "nat \<times> body"

definition not_found :: response where
  "not_found = (404, Error ''Document not found'')"

definition summary :: "server \<Rightarrow> string \<Rightarrow> nat \<Rightarrow> doc_summary" where
  "summary s docId m =
     \<lparr>doc_id = docId, doc_title = title (metas s m),
      doc_lastModified = lastModified (metas s m),
      collaboratorCount = fcard (collaborators (metas s m))\<rparr>"

text \<open>\<open>GET /api/documents\<close>, lines 34-43.\<close>

definition get_documents :: "server \<Rightarrow> response" where
  "get_documents s = (200, DocList (map (\<lambda>(docId, m). summary s docId m) (documentMetadata s)))"

text \<open>\<open>GET /api/documents/:docId\<close>, lines 45-59.\<close>

definition get_document :: "string \<Rightarrow> server \<Rightarrow> response" where
  "get_document docId s =
     (case map_of (documentMetadata s) docId of
        None \<Rightarrow> not_found
      | Some m \<Rightarrow> (200, Doc (summary s docId m)))"

text \<open>
  \<open>POST /api/documents\<close>, lines 61-81. \<open>docId\<close> is what \<open>uuidv4()\<close> returned and
  \<open>now\<close> what \<open>new Date()\<close> returned; the destructuring default applies when the
  body has no \<open>title\<close>. \<open>req.get("host")\<close> is \<open>undefined\<close> without a Host header.
\<close>

definition post_document ::
  "string \<Rightarrow> json option \<Rightarrow> timestamp \<Rightarrow> string \<Rightarrow> string option \<Rightarrow> server \<Rightarrow> response \<times> server" where
  "post_document docId body_title now protocol host s =
     (let t = (case body_title of None \<Rightarrow> JString ''Untitled Document'' | Some v \<Rightarrow> v);
          yd = ydoc_next s;
          m = meta_next s
      in ((200, Created docId t
                 (protocol @ ''://'' @ (case host of None \<Rightarrow> ''undefined'' | Some h \<Rightarrow> h)
                    @ ''/doc/'' @ docId)),
          s\<lparr>ydocs := (ydocs s)(yd := new_YDoc), ydoc_next := Suc yd,
            documents := AList.update docId yd (documents s),
            metas := (metas s)(m := new_metadata (Some t) now), meta_next := Suc m,
            documentMetadata := AList.update docId m (documentMetadata s)\<rparr>))"

text \<open>\<open>PUT /api/documents/:docId/title\<close>, lines 83-96.\<close>

definition put_title :: "string \<Rightarrow> json option \<Rightarrow> timestamp \<Rightarrow> server \<Rightarrow> response \<times> server" where
  "put_title docId body_title now s =
     (case map_of (documentMetadata s) docId of
        None \<Rightarrow> (not_found, s)
      | Some m \<Rightarrow>
          ((200, Success),
           s\<lparr>metas := (metas s)(m := (metas s m)\<lparr>title := body_title, lastModified := now\<rparr>)\<rparr>))"

text \<open>\<open>DELETE /api/documents/:docId\<close>, lines 98-115.\<close>

definition delete_document :: "string \<Rightarrow> server \<Rightarrow> response \<times> server" where
  "delete_document docId s =
     (case map_of (documents s) docId of
        None \<Rightarrow> (not_found, s)
      | Some yd \<Rightarrow>
          ((200, Success),
           s\<lparr>ydocs := (ydocs s)(yd := (ydocs s yd)\<lparr>destroyed := True, update_handlers := []\<rparr>),
             documents := AList.delete docId (documents s),
             documentMetadata := AList.delete docId (documentMetadata s)\<rparr>))"

text \<open>\<open>GET /health\<close>, lines 118-125; \<open>uptime\<close> is what \<open>process.uptime()\<close> returned.\<close>

definition health :: "timestamp \<Rightarrow> nat \<Rightarrow> server \<Rightarrow> response" where
  "health now uptime s = (200, Healthy now (length (documents s)) uptime)"

subsection \<open>The WebSocket connection handler\<close>

text \<open>Line 133: \<open>url.slice(1).split("?")[0] || "default-room"\<close>, with \<open>req.url || ""\<close>.\<close>

definition docName_of :: "string option \<Rightarrow> string" where
  "docName_of requrl =
     (let url = (case requrl of None \<Rightarrow> [] | Some u \<Rightarrow> u);
          name = takeWhile (\<lambda>c. c \<noteq> CHR ''?'') (drop 1 url)
      in if name = [] then ''default-room'' else name)"

text \<open>Lines 137-150: ensure that the document exists.\<close>

definition ensure_document :: "string \<Rightarrow> timestamp \<Rightarrow> server \<Rightarrow> server" where
  "ensure_document docName now s =
     (if map_of (documents s) docName = None then
        (let yd = ydoc_next s;
             s1 = s\<lparr>ydocs := (ydocs s)(yd := new_YDoc), ydoc_next := Suc yd,
                    documents := AList.update docName yd (documents s)\<rparr>
         in if map_of (documentMetadata s1) docName = None then
              (let m = meta_next s1
               in s1\<lparr>metas := (metas s1)(m := new_metadata (Some (JString ''Untitled Document'')) now),
                      meta_next := Suc m,
                      documentMetadata := AList.update docName m (documentMetadata s1)\<rparr>)
            else s1)
      else s)"

text \<open>
  Lines 152-163: add to the collaborators of the metadata object found now, and register
  the \<open>close\<close> listener on \<open>ws\<close>, which keeps that object and the id.
  \<open>collaboratorId\<close> is what \<open>uuidv4()\<close> returned.
\<close>

definition add_collaborator :: "string \<Rightarrow> string \<Rightarrow> nat \<Rightarrow> server \<Rightarrow> server" where
  "add_collaborator docName collaboratorId ws s =
     (case map_of (documentMetadata s) docName of
        None \<Rightarrow> s
      | Some m \<Rightarrow>
          s\<lparr>metas := (metas s)(m := (metas s m)
                 \<lparr>collaborators := finsert collaboratorId (collaborators (metas s m))\<rparr>),
            sockets := (sockets s)(ws := map_option (\<lambda>k. k\<lparr>close_listener := Some (m, collaboratorId)\<rparr>)
                                             (sockets s ws))\<rparr>)"

text \<open>
  Lines 165-187. \<open>setupWSConnection\<close> is the library's; the handler only sees whether
  the call returns or throws (\<open>throws\<close>). When it throws, control goes to the
  \<open>catch\<close> block: no \<open>update\<close> listener is registered and \<open>ws.close()\<close> is called.
\<close>

definition sync_connection :: "string \<Rightarrow> bool \<Rightarrow> nat \<Rightarrow> server \<Rightarrow> server" where
  "sync_connection docName throws ws s =
     (if throws then
        s\<lparr>sockets := (sockets s)(ws := map_option (\<lambda>k. k\<lparr>close_called := True\<rparr>) (sockets s ws))\<rparr>
      else
        (case map_of (documents s) docName of
           Some yd \<Rightarrow>
             s\<lparr>sockets := (sockets s)(ws := map_option (\<lambda>k. k\<lparr>sync_args := Some (docName, Some yd)\<rparr>)
                                              (sockets s ws)),
               ydocs := (ydocs s)(yd := (ydocs s yd)
                 \<lparr>update_handlers := update_handlers (ydocs s yd) @ [docName]\<rparr>)\<rparr>
         | None \<Rightarrow>
             s\<lparr>sockets := (sockets s)(ws := map_option (\<lambda>k. k\<lparr>sync_args := Some (docName, None)\<rparr>)
                                              (sockets s ws))\<rparr>))"

text \<open>The handler of \<open>wss.on("connection")\<close>, lines 131-188; the new socket is \<open>sock_next\<close>.\<close>

definition wss_connection :: "string option \<Rightarrow> string \<Rightarrow> timestamp \<Rightarrow> bool \<Rightarrow> server \<Rightarrow> server" where
  "wss_connection requrl collaboratorId now throws s =
     (let docName = docName_of requrl;
          ws = sock_next s;
          s0 = s\<lparr>sockets := (sockets s)(ws \<mapsto> \<lparr>room = docName, close_listener = None,
                                                 sync_args = None, close_called = False\<rparr>),
                 sock_next := Suc ws\<rparr>
      in sync_connection docName throws ws
           (add_collaborator docName collaboratorId ws (ensure_document docName now s0)))"

text \<open>
  The \<open>close\<close> event of socket \<open>ws\<close>: its listener (line 160) deletes the captured id
  from the captured metadata object; the socket is gone afterwards.
\<close>

definition ws_close :: "nat \<Rightarrow> server \<Rightarrow> server" where
  "ws_close ws s =
     (case sockets s ws of
        None \<Rightarrow> s
      | Some k \<Rightarrow>
          (case close_listener k of
             None \<Rightarrow> s\<lparr>sockets := (sockets s)(ws := None)\<rparr>
           | Some (m, collaboratorId) \<Rightarrow>
               s\<lparr>metas := (metas s)(m := (metas s m)
                      \<lparr>collaborators := collaborators (metas s m) |-| {|collaboratorId|}\<rparr>),
                 sockets := (sockets s)(ws := None)\<rparr>))"

text \<open>
  The \<open>update\<close> event of the \<open>Y.Doc\<close> at address \<open>yd\<close>: every listener registered
  on it runs (lines 175-180), each looking the metadata up by the name it captured.
\<close>

definition on_update :: "string \<Rightarrow> timestamp \<Rightarrow> server \<Rightarrow> server" where
  "on_update docName now s =
     (case map_of (documentMetadata s) docName of
        None \<Rightarrow> s
      | Some m \<Rightarrow> s\<lparr>metas := (metas s)(m := (metas s m)\<lparr>lastModified := now\<rparr>)\<rparr>)"

definition ydoc_update :: "nat \<Rightarrow> timestamp \<Rightarrow> server \<Rightarrow> server" where
  "ydoc_update yd now s = fold (\<lambda>docName. on_update docName now) (update_handlers (ydocs s yd)) s"

subsection \<open>Content deltas of clients\<close>

text \<open>
  The repository's declaration of \<open>setupWSConnection\<close> (part 000, lines 234-242)
  gives it the options \<open>docName\<close>, \<open>gc\<close> and \<open>awareness\<close>. The \<open>doc\<close> that
  line 171 passes is not one of them.
\<close>

definition doc_option_declared :: bool where
  "doc_option_declared = False"

text \<open>
  A content delta that the library accepts from the client of socket \<open>ws\<close>. The library
  applies it to the document it synchronises the socket with. \<open>reads_doc\<close> says whether
  that is the \<open>Y.Doc\<close> passed as \<open>doc\<close>, whose \<open>update\<close> event then fires; if the
  library does not read the option it keeps a document of its own for the name, and no
  \<open>Y.Doc\<close> of \<open>documents\<close> changes.
\<close>

definition client_delta :: "bool \<Rightarrow> nat \<Rightarrow> timestamp \<Rightarrow> server \<Rightarrow> server" where
  "client_delta reads_doc ws now s =
     (case sockets s ws of
        None \<Rightarrow> s
      | Some k \<Rightarrow>
          (case sync_args k of
             None \<Rightarrow> s
           | Some (docName, passed) \<Rightarrow>
               (case passed of
                  None \<Rightarrow> s
                | Some yd \<Rightarrow> if reads_doc then ydoc_update yd now s else s)))"

subsection \<open>Events\<close>

datatype event =
    GetDocuments
  | GetDocument string
  | PostDocument string "json option" timestamp string "string option"
  | PutTitle string "json option" timestamp
  | DeleteDocument string
  | Health timestamp nat
  | WsConnection "string option" string timestamp bool
  | WsClose nat
  | YDocUpdate nat timestamp
  | ClientDelta nat timestamp

fun step :: "event \<Rightarrow> server \<Rightarrow> server" where
  "step GetDocuments s = s"
| "step (GetDocument docId) s = s"
| "step (PostDocument docId t now protocol host) s = snd (post_document docId t now protocol host s)"
| "step (PutTitle docId t now) s = snd (put_title docId t now s)"
| "step (DeleteDocument docId) s = snd (delete_document docId s)"
| "step (Health now uptime) s = s"
| "step (WsConnection requrl collaboratorId now throws) s = wss_connection requrl collaboratorId now throws s"
| "step (WsClose ws) s = ws_close ws s"
| "step (YDocUpdate yd now) s = ydoc_update yd now s"
| "step (ClientDelta ws now) s = client_delta doc_option_declared ws now s"

text \<open>The server after a sequence of events, oldest first.\<close>

definition run :: "event list \<Rightarrow> server \<Rightarrow> server" where
  "run es s = fold step es s"

subsection \<open>Identifiers from \<open>uuidv4()\<close>\<close>

text \<open>
  \<open>uuidv4()\<close> returns an identifier that is not in use: a document id under which
  neither map has an entry, a collaborator id that the record it is added to does not
  hold. \<open>fresh_run es s\<close> says so of every event of \<open>es\<close>, run from \<open>s\<close>.
\<close>

fun fresh_event :: "event \<Rightarrow> server \<Rightarrow> bool" where
  "fresh_event (PostDocument docId t now protocol host) s =
     (map_of (documents s) docId = None \<and> map_of (documentMetadata s) docId = None)"
| "fresh_event (WsConnection requrl collaboratorId now throws) s =
     (case map_of (documentMetadata s) (docName_of requrl) of
        None \<Rightarrow> True
      | Some m \<Rightarrow> collaboratorId |\<notin>| collaborators (metas s m))"
| "fresh_event e s = True"

fun fresh_run :: "event list \<Rightarrow> server \<Rightarrow> bool" where
  "fresh_run [] s = True"
| "fresh_run (e # es) s = (fresh_event e s \<and> fresh_run es (step e s))"

subsection \<open>Invariants of the stores\<close>

text \<open>
  References held by the maps and by the listeners of open sockets are allocated; no two
  names share a metadata record; the collaborator id of every open socket is in the
  record its \<open>close\<close> listener captured, and no two sockets captured the same pair;
  an \<open>update\<close> listener for a name is on the document registered under the name.
\<close>

definition refs_allocated :: "server \<Rightarrow> bool" where
  "refs_allocated s \<longleftrightarrow>
     (\<forall>n m. map_of (documentMetadata s) n = Some m \<longrightarrow> m < meta_next s)
   \<and> (\<forall>n yd. map_of (documents s) n = Some yd \<longrightarrow> yd < ydoc_next s)
   \<and> (\<forall>w k m c. sockets s w = Some k \<longrightarrow> close_listener k = Some (m, c) \<longrightarrow> m < meta_next s)
   \<and> (\<forall>w k n yd. sockets s w = Some k \<longrightarrow> sync_args k = Some (n, Some yd) \<longrightarrow> yd < ydoc_next s)"

definition records_unshared :: "server \<Rightarrow> bool" where
  "records_unshared s \<longleftrightarrow>
     (\<forall>n n' m. map_of (documentMetadata s) n = Some m \<longrightarrow>
        map_of (documentMetadata s) n' = Some m \<longrightarrow> n = n')"

definition sessions_counted :: "server \<Rightarrow> bool" where
  "sessions_counted s \<longleftrightarrow>
     (\<forall>w k m c. sockets s w = Some k \<longrightarrow> close_listener k = Some (m, c) \<longrightarrow>
        c |\<in>| collaborators (metas s m))
   \<and> (\<forall>w w' k k' m c. sockets s w = Some k \<longrightarrow> sockets s w' = Some k' \<longrightarrow>
        close_listener k = Some (m, c) \<longrightarrow> close_listener k' = Some (m, c) \<longrightarrow> w = w')"

definition listeners_current :: "server \<Rightarrow> bool" where
  "listeners_current s \<longleftrightarrow>
     (\<forall>n yd. n \<in> set (update_handlers (ydocs s yd)) \<longrightarrow>
        map_of (documents s) n = Some yd)"

definition consistent :: "server \<Rightarrow> bool" where
  "consistent s \<longleftrightarrow>
     fst ` set (documents s) = fst ` set (documentMetadata s)
   \<and> refs_allocated s \<and> records_unshared s \<and> sessions_counted s \<and> listeners_current s"

subsection \<open>Example runs\<close>

text \<open>
  A document is created over REST and a client connects to it.
\<close>

definition trace1 :: "event list" where
  "trace1 = [PostDocument ''d1'' None 5 ''http'' None, WsConnection (Some ''/d1'') ''u1'' 6 False]"

text \<open>
  A client connects to a name, the document is deleted over REST while the client stays
  connected, and a second client connects to the same name.
\<close>

definition trace2 :: "event list" where
  "trace2 = [WsConnection (Some ''/doc'') ''u1'' 1 False, DeleteDocument ''doc'',
             WsConnection (Some ''/doc'') ''u2'' 2 False]"

section \<open>The editor page (client source, page.tsx, lines 85-99 and 194-210)\<close>

text \<open>
  An awareness state as the page reads it: \<open>state.user\<close> with its \<open>name\<close> and
  \<open>color\<close>, absent until a client has set it, and \<open>state.cursor?.anchor\<close>, absent
  until the client has clicked or typed.
\<close>

record awareness_user =
  user_name :: string
  user_color :: string

record awareness_state =
  user :: "awareness_user option"
  cursor_anchor :: "nat option"

text \<open>The interface \<open>ConnectedUser\<close>, lines 85-89.\<close>

record ConnectedUser =
  name :: string
  color :: string
  cursor :: "nat option"

text \<open>
  The React state the handler writes: \<open>connectedUsers\<close>, a \<open>Map<number, ConnectedUser>\<close>
  that starts as \<open>new Map()\<close>, and \<open>userCount\<close>, which starts at 0.
\<close>

record page =
  connectedUsers :: "(nat \<times> ConnectedUser) list"
  userCount :: nat

definition page_init :: page where
  "page_init = \<lparr>connectedUsers = [], userCount = 0\<rparr>"

text \<open>
  The body of \<open>states.forEach\<close>, lines 198-206: one entry of \<open>getStates()\<close> is put
  into \<open>users\<close> when it has a \<open>user\<close> and is not this client's own.
\<close>

definition add_user :: "nat \<Rightarrow> nat \<times> awareness_state \<Rightarrow> (nat \<times> ConnectedUser) list \<Rightarrow> (nat \<times> ConnectedUser) list" where
  "add_user clientID entry users =
     (case user (snd entry) of
        None \<Rightarrow> users
      | Some u \<Rightarrow>
          if fst entry \<noteq> clientID
          then AList.update (fst entry)
                 \<lparr>name = user_name u, color = user_color u, cursor = cursor_anchor (snd entry)\<rparr> users
          else users)"

text \<open>
  The listener of \<open>provider.awareness.on("change")\<close>, lines 194-210. \<open>states\<close> is what
  \<open>provider.awareness.getStates()\<close> returns when the listener runs, \<open>clientID\<close> is
  \<open>provider.awareness.clientID\<close>.
\<close>

definition on_awareness_change :: "(nat \<times> awareness_state) list \<Rightarrow> nat \<Rightarrow> page \<Rightarrow> page" where
  "on_awareness_change states clientID p =
     p\<lparr>connectedUsers := fold (add_user clientID) states [], userCount := length states\<rparr>"

text \<open>The page after a sequence of \<open>change\<close> events, given the states at each, oldest first.\<close>

definition changes :: "(nat \<times> awareness_state) list list \<Rightarrow> nat \<Rightarrow> page \<Rightarrow> page" where
  "changes snapshots clientID p = fold (\<lambda>states. on_awareness_change states clientID) snapshots p"

section \<open>Helper facts\<close>

lemma keys_delete: "fst ` set (AList.delete k al) = fst ` set al - {k}"
  by (induction al) auto

lemma client_delta_declared [simp]: "client_delta doc_option_declared ws now s = s"
  by (simp add: client_delta_def doc_option_declared_def split: option.split)

text \<open>The REST handlers and the event handlers, field by field.\<close>

lemma documents_on_update [simp]: "documents (on_update n t s) = documents s"
  by (simp add: on_update_def split: option.split)

lemma documentMetadata_on_update [simp]: "documentMetadata (on_update n t s) = documentMetadata s"
  by (simp add: on_update_def split: option.split)

lemma documents_fold_on_update [simp]:
  "documents (fold (\<lambda>n. on_update n t) ns s) = documents s"
  by (induction ns arbitrary: s) simp_all

lemma documentMetadata_fold_on_update [simp]:
  "documentMetadata (fold (\<lambda>n. on_update n t) ns s) = documentMetadata s"
  by (induction ns arbitrary: s) simp_all

lemma post_document_fields:
  "documents (snd (post_document d b t p h s)) = AList.update d (ydoc_next s) (documents s)"
  "documentMetadata (snd (post_document d b t p h s)) = AList.update d (meta_next s) (documentMetadata s)"
  "metas (snd (post_document d b t p h s)) =
     (metas s)(meta_next s := new_metadata
        (Some (case b of None \<Rightarrow> JString ''Untitled Document'' | Some v \<Rightarrow> v)) t)"
  "meta_next (snd (post_document d b t p h s)) = Suc (meta_next s)"
  "ydocs (snd (post_document d b t p h s)) = (ydocs s)(ydoc_next s := new_YDoc)"
  "ydoc_next (snd (post_document d b t p h s)) = Suc (ydoc_next s)"
  "sockets (snd (post_document d b t p h s)) = sockets s"
  "sock_next (snd (post_document d b t p h s)) = sock_next s"
  by (simp_all add: post_document_def Let_def)

lemma put_title_fields:
  "documents (snd (put_title d b t s)) = documents s"
  "documentMetadata (snd (put_title d b t s)) = documentMetadata s"
  "metas (snd (put_title d b t s)) =
     (case map_of (documentMetadata s) d of
        None \<Rightarrow> metas s
      | Some m \<Rightarrow> (metas s)(m := (metas s m)\<lparr>title := b, lastModified := t\<rparr>))"
  "meta_next (snd (put_title d b t s)) = meta_next s"
  "ydocs (snd (put_title d b t s)) = ydocs s"
  "ydoc_next (snd (put_title d b t s)) = ydoc_next s"
  "sockets (snd (put_title d b t s)) = sockets s"
  "sock_next (snd (put_title d b t s)) = sock_next s"
  by (simp_all add: put_title_def split: option.split)

lemma delete_document_fields:
  "documents (snd (delete_document d s)) =
     (if map_of (documents s) d = None then documents s else AList.delete d (documents s))"
  "documentMetadata (snd (delete_document d s)) =
     (if map_of (documents s) d = None then documentMetadata s else AList.delete d (documentMetadata s))"
  "metas (snd (delete_document d s)) = metas s"
  "meta_next (snd (delete_document d s)) = meta_next s"
  "ydocs (snd (delete_document d s)) =
     (case map_of (documents s) d of
        None \<Rightarrow> ydocs s
      | Some yd \<Rightarrow> (ydocs s)(yd := (ydocs s yd)\<lparr>destroyed := True, update_handlers := []\<rparr>))"
  "ydoc_next (snd (delete_document d s)) = ydoc_next s"
  "sockets (snd (delete_document d s)) = sockets s"
  "sock_next (snd (delete_document d s)) = sock_next s"
  by (simp_all add: delete_document_def split: option.split)

lemma ws_close_fields:
  "documents (ws_close w s) = documents s"
  "documentMetadata (ws_close w s) = documentMetadata s"
  "metas (ws_close w s) =
     (case sockets s w of
        None \<Rightarrow> metas s
      | Some k \<Rightarrow>
          (case close_listener k of
             None \<Rightarrow> metas s
           | Some (m, c) \<Rightarrow> (metas s)(m := (metas s m)\<lparr>collaborators := collaborators (metas s m) |-| {|c|}\<rparr>)))"
  "meta_next (ws_close w s) = meta_next s"
  "ydocs (ws_close w s) = ydocs s"
  "ydoc_next (ws_close w s) = ydoc_next s"
  "sockets (ws_close w s) = (sockets s)(w := None)"
  "sock_next (ws_close w s) = sock_next s"
  by (auto simp: ws_close_def split: option.split)

lemma on_update_fields:
  "metas (on_update n t s) =
     (case map_of (documentMetadata s) n of
        None \<Rightarrow> metas s
      | Some m \<Rightarrow> (metas s)(m := (metas s m)\<lparr>lastModified := t\<rparr>))"
  "meta_next (on_update n t s) = meta_next s"
  "ydocs (on_update n t s) = ydocs s"
  "ydoc_next (on_update n t s) = ydoc_next s"
  "sockets (on_update n t s) = sockets s"
  "sock_next (on_update n t s) = sock_next s"
  by (simp_all add: on_update_def split: option.split)

lemma fold_on_update_fields:
  "meta_next (fold (\<lambda>n. on_update n t) ns s) = meta_next s"
  "ydocs (fold (\<lambda>n. on_update n t) ns s) = ydocs s"
  "ydoc_next (fold (\<lambda>n. on_update n t) ns s) = ydoc_next s"
  "sockets (fold (\<lambda>n. on_update n t) ns s) = sockets s"
  "sock_next (fold (\<lambda>n. on_update n t) ns s) = sock_next s"
  by (induction ns arbitrary: s; simp add: on_update_fields)+

lemma fold_on_update_metas:
  "metas (fold (\<lambda>n. on_update n t) ns s) m =
     (if \<exists>n \<in> set ns. map_of (documentMetadata s) n = Some m
      then (metas s m)\<lparr>lastModified := t\<rparr> else metas s m)"
proof (induction ns arbitrary: s)
  case Nil
  show ?case by simp
next
  case (Cons n ns)
  show ?case
    by (cases "map_of (documentMetadata s) n") (auto simp: Cons.IH on_update_fields)
qed

lemma ydoc_update_fields:
  "documents (ydoc_update yd t s) = documents s"
  "documentMetadata (ydoc_update yd t s) = documentMetadata s"
  "meta_next (ydoc_update yd t s) = meta_next s"
  "ydocs (ydoc_update yd t s) = ydocs s"
  "ydoc_next (ydoc_update yd t s) = ydoc_next s"
  "sockets (ydoc_update yd t s) = sockets s"
  "sock_next (ydoc_update yd t s) = sock_next s"
  by (simp_all add: ydoc_update_def fold_on_update_fields)

lemma ydoc_update_metas:
  "metas (ydoc_update yd t s) m =
     (if \<exists>n \<in> set (update_handlers (ydocs s yd)). map_of (documentMetadata s) n = Some m
      then (metas s m)\<lparr>lastModified := t\<rparr> else metas s m)"
  by (simp add: ydoc_update_def fold_on_update_metas)


text \<open>The connection handler, stage by stage and field by field.\<close>

lemma ensure_document_fields:
  "documents (ensure_document n t s) =
     (if map_of (documents s) n = None then AList.update n (ydoc_next s) (documents s) else documents s)"
  "documentMetadata (ensure_document n t s) =
     (if map_of (documents s) n = None \<and> map_of (documentMetadata s) n = None
      then AList.update n (meta_next s) (documentMetadata s) else documentMetadata s)"
  "metas (ensure_document n t s) =
     (if map_of (documents s) n = None \<and> map_of (documentMetadata s) n = None
      then (metas s)(meta_next s := new_metadata (Some (JString ''Untitled Document'')) t) else metas s)"
  "meta_next (ensure_document n t s) =
     (if map_of (documents s) n = None \<and> map_of (documentMetadata s) n = None
      then Suc (meta_next s) else meta_next s)"
  "ydocs (ensure_document n t s) =
     (if map_of (documents s) n = None then (ydocs s)(ydoc_next s := new_YDoc) else ydocs s)"
  "ydoc_next (ensure_document n t s) =
     (if map_of (documents s) n = None then Suc (ydoc_next s) else ydoc_next s)"
  "sockets (ensure_document n t s) = sockets s"
  "sock_next (ensure_document n t s) = sock_next s"
  by (simp_all add: ensure_document_def Let_def)

lemma add_collaborator_fields:
  "documents (add_collaborator n c w s) = documents s"
  "documentMetadata (add_collaborator n c w s) = documentMetadata s"
  "metas (add_collaborator n c w s) =
     (case map_of (documentMetadata s) n of
        None \<Rightarrow> metas s
      | Some m \<Rightarrow> (metas s)(m := (metas s m)\<lparr>collaborators := finsert c (collaborators (metas s m))\<rparr>))"
  "meta_next (add_collaborator n c w s) = meta_next s"
  "ydocs (add_collaborator n c w s) = ydocs s"
  "ydoc_next (add_collaborator n c w s) = ydoc_next s"
  "sockets (add_collaborator n c w s) =
     (case map_of (documentMetadata s) n of
        None \<Rightarrow> sockets s
      | Some m \<Rightarrow> (sockets s)(w := map_option (\<lambda>k. k\<lparr>close_listener := Some (m, c)\<rparr>) (sockets s w)))"
  "sock_next (add_collaborator n c w s) = sock_next s"
  by (simp_all add: add_collaborator_def split: option.split)

lemma sync_connection_fields:
  "documents (sync_connection n b w s) = documents s"
  "documentMetadata (sync_connection n b w s) = documentMetadata s"
  "metas (sync_connection n b w s) = metas s"
  "meta_next (sync_connection n b w s) = meta_next s"
  "ydocs (sync_connection n b w s) =
     (if b then ydocs s
      else case map_of (documents s) n of
             None \<Rightarrow> ydocs s
           | Some yd \<Rightarrow> (ydocs s)(yd := (ydocs s yd)\<lparr>update_handlers := update_handlers (ydocs s yd) @ [n]\<rparr>))"
  "ydoc_next (sync_connection n b w s) = ydoc_next s"
  "sockets (sync_connection n b w s) =
     (sockets s)(w := map_option
        (\<lambda>k. if b then k\<lparr>close_called := True\<rparr>
             else k\<lparr>sync_args := Some (n, map_of (documents s) n)\<rparr>) (sockets s w))"
  "sock_next (sync_connection n b w s) = sock_next s"
  by (simp_all add: sync_connection_def split: option.split)

lemma wss_connection_fields:
  "documents (wss_connection u c t b s) =
     (if map_of (documents s) (docName_of u) = None
      then AList.update (docName_of u) (ydoc_next s) (documents s) else documents s)"
  "documentMetadata (wss_connection u c t b s) =
     (if map_of (documents s) (docName_of u) = None \<and> map_of (documentMetadata s) (docName_of u) = None
      then AList.update (docName_of u) (meta_next s) (documentMetadata s) else documentMetadata s)"
  "meta_next (wss_connection u c t b s) =
     (if map_of (documents s) (docName_of u) = None \<and> map_of (documentMetadata s) (docName_of u) = None
      then Suc (meta_next s) else meta_next s)"
  "ydoc_next (wss_connection u c t b s) =
     (if map_of (documents s) (docName_of u) = None then Suc (ydoc_next s) else ydoc_next s)"
  "sock_next (wss_connection u c t b s) = Suc (sock_next s)"
  by (simp_all add: wss_connection_def Let_def ensure_document_fields add_collaborator_fields
      sync_connection_fields)


lemma wss_connection_metas:
  "metas (wss_connection u c t b s) =
     (if map_of (documents s) (docName_of u) = None \<and> map_of (documentMetadata s) (docName_of u) = None
      then (metas s)(meta_next s := \<lparr>title = Some (JString ''Untitled Document''), lastModified = t,
                                       collaborators = {|c|}\<rparr>)
      else case map_of (documentMetadata s) (docName_of u) of
             None \<Rightarrow> metas s
           | Some m \<Rightarrow> (metas s)(m := (metas s m)\<lparr>collaborators := finsert c (collaborators (metas s m))\<rparr>))"
  by (simp add: wss_connection_def Let_def ensure_document_fields add_collaborator_fields
      sync_connection_fields update_conv' new_metadata_def split: option.split)

lemma wss_connection_ydocs:
  "ydocs (wss_connection u c t b s) =
     (if map_of (documents s) (docName_of u) = None
      then (ydocs s)(ydoc_next s := new_YDoc\<lparr>update_handlers := (if b then [] else [docName_of u])\<rparr>)
      else if b then ydocs s
      else case map_of (documents s) (docName_of u) of
             None \<Rightarrow> ydocs s
           | Some yd \<Rightarrow> (ydocs s)(yd := (ydocs s yd)
                \<lparr>update_handlers := update_handlers (ydocs s yd) @ [docName_of u]\<rparr>))"
  by (simp add: wss_connection_def Let_def ensure_document_fields add_collaborator_fields
      sync_connection_fields update_conv' new_YDoc_def split: option.split)

lemma wss_connection_sockets:
  "sockets (wss_connection u c t b s) =
     (sockets s)(sock_next s \<mapsto>
        \<lparr>room = docName_of u,
         close_listener =
           (if map_of (documents s) (docName_of u) = None \<and> map_of (documentMetadata s) (docName_of u) = None
            then Some (meta_next s, c)
            else map_option (\<lambda>m. (m, c)) (map_of (documentMetadata s) (docName_of u))),
         sync_args =
           (if b then None
            else Some (docName_of u,
                   if map_of (documents s) (docName_of u) = None then Some (ydoc_next s)
                   else map_of (documents s) (docName_of u))),
         close_called = b\<rparr>)"
  by (simp add: wss_connection_def Let_def ensure_document_fields add_collaborator_fields
      sync_connection_fields update_conv' split: option.split)


lemma keys_step:
  "fst ` set (documents s) = fst ` set (documentMetadata s) \<Longrightarrow>
   fst ` set (documents (step e s)) = fst ` set (documentMetadata (step e s))"
proof (cases e)
  case (PostDocument docId t now protocol host)
  assume "fst ` set (documents s) = fst ` set (documentMetadata s)"
  then show ?thesis
    by (simp add: PostDocument post_document_def Let_def dom_update)
next
  case (PutTitle docId t now)
  assume "fst ` set (documents s) = fst ` set (documentMetadata s)"
  then show ?thesis
    by (simp add: PutTitle put_title_def split: option.split)
next
  case (DeleteDocument docId)
  assume "fst ` set (documents s) = fst ` set (documentMetadata s)"
  then show ?thesis
    by (simp add: DeleteDocument delete_document_def keys_delete split: option.split)
next
  case (WsConnection requrl c now throws)
  assume "fst ` set (documents s) = fst ` set (documentMetadata s)"
  then show ?thesis
    by (auto simp: WsConnection wss_connection_fields dom_update map_of_eq_None_iff)
next
  case (WsClose ws)
  assume "fst ` set (documents s) = fst ` set (documentMetadata s)"
  then show ?thesis
    by (simp add: WsClose ws_close_def split: option.split prod.split)
next
  case (YDocUpdate yd now)
  assume "fst ` set (documents s) = fst ` set (documentMetadata s)"
  then show ?thesis
    by (simp add: YDocUpdate ydoc_update_def)
qed simp_all

lemma keys_run:
  "fst ` set (documents s) = fst ` set (documentMetadata s) \<Longrightarrow>
   fst ` set (documents (run es s)) = fst ` set (documentMetadata (run es s))"
  unfolding run_def
  by (induction es arbitrary: s) (simp_all add: keys_step)

subsection \<open>The invariants hold in every state the server reaches\<close>

lemma refs_allocated_connection:
  assumes "refs_allocated s"
  shows "refs_allocated (wss_connection u c t b s)"
proof (cases "map_of (documents s) (docName_of u)")
  case None
  show ?thesis
  proof (cases "map_of (documentMetadata s) (docName_of u)")
    case N2: None
    with None assms show ?thesis
      by (auto simp: refs_allocated_def wss_connection_fields wss_connection_sockets update_conv'
          less_Suc_eq split: if_splits)
  next
    case (Some m)
    with None assms show ?thesis
      by (auto simp: refs_allocated_def wss_connection_fields wss_connection_sockets update_conv'
          less_Suc_eq split: if_splits)
  qed
next
  case (Some yd)
  with assms show ?thesis
    by (auto simp: refs_allocated_def wss_connection_fields wss_connection_sockets
          split: if_splits)
qed

lemma refs_allocated_step:
  assumes "refs_allocated s"
  shows "refs_allocated (step e s)"
proof (cases e)
  case (PostDocument d b t p h)
  with assms show ?thesis
    by (auto simp: refs_allocated_def post_document_fields update_conv' less_Suc_eq split: if_splits)
next
  case (PutTitle d b t)
  with assms show ?thesis
    by (simp add: refs_allocated_def put_title_fields)
next
  case (DeleteDocument d)
  with assms show ?thesis
    by (auto simp: refs_allocated_def delete_document_fields delete_conv' split: if_splits)
next
  case (WsConnection u c t b)
  with assms show ?thesis
    by (simp add: refs_allocated_connection)
next
  case (WsClose w)
  with assms show ?thesis
    by (auto simp: refs_allocated_def ws_close_fields split: if_splits)
next
  case (YDocUpdate yd t)
  with assms show ?thesis
    by (simp add: refs_allocated_def ydoc_update_fields)
qed (use assms in simp_all)

lemma records_unshared_step:
  assumes "records_unshared s" "refs_allocated s"
  shows "records_unshared (step e s)"
proof (cases e)
  case (PostDocument d b t p h)
  have "\<And>n. map_of (documentMetadata s) n \<noteq> Some (meta_next s)"
    using assms(2) by (auto simp: refs_allocated_def)
  with assms(1) PostDocument show ?thesis
    by (auto simp: records_unshared_def post_document_fields update_conv' split: if_splits)
next
  case (PutTitle d b t)
  with assms show ?thesis
    by (simp add: records_unshared_def put_title_fields)
next
  case (DeleteDocument d)
  with assms(1) show ?thesis
    by (auto simp: records_unshared_def delete_document_fields delete_conv' split: if_splits)
next
  case (WsConnection u c t b)
  have "\<And>n. map_of (documentMetadata s) n \<noteq> Some (meta_next s)"
    using assms(2) by (auto simp: refs_allocated_def)
  with assms(1) WsConnection show ?thesis
    by (auto simp: records_unshared_def wss_connection_fields update_conv' split: if_splits)
next
  case (WsClose w)
  with assms show ?thesis
    by (simp add: records_unshared_def ws_close_fields)
next
  case (YDocUpdate yd t)
  with assms show ?thesis
    by (simp add: records_unshared_def ydoc_update_fields)
qed (use assms in simp_all)

lemma sessions_counted_connection:
  assumes "sessions_counted s" "refs_allocated s"
    and "fresh_event (WsConnection u c t b) s"
  shows "sessions_counted (wss_connection u c t b s)"
proof (cases "map_of (documents s) (docName_of u) = None \<and> map_of (documentMetadata s) (docName_of u) = None")
  case True
  have *: "\<And>w k c'. sockets s w = Some k \<Longrightarrow> close_listener k \<noteq> Some (meta_next s, c')"
    using assms(2) by (fastforce simp: refs_allocated_def)
  from True assms(1) * show ?thesis
    unfolding sessions_counted_def
    by (auto simp: wss_connection_metas wss_connection_sockets split: if_splits)
next
  case False
  show ?thesis
  proof (cases "map_of (documentMetadata s) (docName_of u)")
    case None
    with False assms(1) show ?thesis
      unfolding sessions_counted_def
      by (auto simp: wss_connection_metas wss_connection_sockets split: if_splits)
  next
    case (Some m)
    with assms(3) have "c |\<notin>| collaborators (metas s m)" by simp
    with False Some assms(1) show ?thesis
      unfolding sessions_counted_def
      by (auto simp: wss_connection_metas wss_connection_sockets split: if_splits)
  qed
qed

lemma sessions_counted_step:
  assumes "sessions_counted s" "refs_allocated s" "fresh_event e s"
  shows "sessions_counted (step e s)"
proof (cases e)
  case (PostDocument d b t p h)
  have *: "\<And>w k c'. sockets s w = Some k \<Longrightarrow> close_listener k \<noteq> Some (meta_next s, c')"
    using assms(2) by (fastforce simp: refs_allocated_def)
  from PostDocument assms(1) * show ?thesis
    unfolding sessions_counted_def
    by (auto simp: post_document_fields)
next
  case (PutTitle d b t)
  with assms(1) show ?thesis
    unfolding sessions_counted_def
    by (auto simp: put_title_fields split: option.splits)
next
  case (DeleteDocument d)
  with assms(1) show ?thesis
    by (simp add: sessions_counted_def delete_document_fields)
next
  case (WsConnection u c t b)
  with assms show ?thesis
    by (simp add: sessions_counted_connection del: fresh_event.simps)
next
  case (WsClose w)
  with assms(1) show ?thesis
    unfolding sessions_counted_def
    by (auto simp: ws_close_fields split: option.splits if_splits)
next
  case (YDocUpdate yd t)
  with assms(1) show ?thesis
    by (simp add: sessions_counted_def ydoc_update_fields ydoc_update_metas)
qed (use assms in simp_all)

lemma listeners_current_step:
  assumes "listeners_current s" "fresh_event e s"
  shows "listeners_current (step e s)"
proof -
  have inv: "\<And>n yd. n \<in> set (update_handlers (ydocs s yd)) \<Longrightarrow> map_of (documents s) n = Some yd"
    using assms(1) unfolding listeners_current_def by blast
  show ?thesis
  proof (cases e)
    case (PostDocument d b t p h)
    with assms have none: "map_of (documents s) d = None" by simp
    have "\<And>n yd. n \<in> set (update_handlers (ydocs s yd)) \<Longrightarrow>
        map_of (documents s) n = Some yd \<and> n \<noteq> d"
      using inv none by fastforce
    with PostDocument show ?thesis
      unfolding listeners_current_def
      by (auto simp: post_document_fields update_conv' new_YDoc_def)
  next
    case (PutTitle d b t)
    with assms show ?thesis
      by (simp add: listeners_current_def put_title_fields)
  next
    case (DeleteDocument d)
    show ?thesis
    proof (cases "map_of (documents s) d")
      case None
      with assms(1) DeleteDocument show ?thesis
        by (simp add: listeners_current_def delete_document_fields)
    next
      case (Some yd0)
      have "\<And>n yd. n \<in> set (update_handlers (ydocs s yd)) \<Longrightarrow>
          yd \<noteq> yd0 \<Longrightarrow> map_of (documents s) n = Some yd \<and> n \<noteq> d"
        using inv Some by fastforce
      with Some DeleteDocument show ?thesis
        unfolding listeners_current_def
        by (auto simp: delete_document_fields delete_conv')
    qed
  next
    case (WsConnection u c t b)
    show ?thesis
    proof (cases "map_of (documents s) (docName_of u)")
      case None
      have "\<And>n yd. n \<in> set (update_handlers (ydocs s yd)) \<Longrightarrow>
          map_of (documents s) n = Some yd \<and> n \<noteq> docName_of u"
        using inv None by fastforce
      with None WsConnection show ?thesis
        unfolding listeners_current_def
        by (auto simp: wss_connection_fields wss_connection_ydocs update_conv' new_YDoc_def
            split: if_splits)
    next
      case (Some yd0)
      with inv WsConnection show ?thesis
        unfolding listeners_current_def
        by (auto simp: wss_connection_fields wss_connection_ydocs split: if_splits)
    qed
  next
    case (WsClose w)
    with assms show ?thesis
      by (simp add: listeners_current_def ws_close_fields)
  next
    case (YDocUpdate yd t)
    with assms show ?thesis
      by (simp add: listeners_current_def ydoc_update_fields)
  qed (use assms in simp_all)
qed

lemma consistent_init: "consistent init"
  by (simp add: consistent_def refs_allocated_def records_unshared_def sessions_counted_def
      listeners_current_def init_def new_YDoc_def)

lemma consistent_step:
  assumes "consistent s" "fresh_event e s"
  shows "consistent (step e s)"
  using assms keys_step [of s e] refs_allocated_step [of s e] records_unshared_step [of s e]
    sessions_counted_step [of s e] listeners_current_step [of s e]
  by (simp add: consistent_def del: fresh_event.simps step.simps)

lemma consistent_run:
  "consistent s \<Longrightarrow> fresh_run es s \<Longrightarrow> consistent (run es s)"
  unfolding run_def
  by (induction es arbitrary: s) (simp_all add: consistent_step del: fresh_event.simps step.simps)

subsection \<open>What each event does to one document\<close>

lemma lm_post:
  assumes "m < meta_next s" "fresh_event (PostDocument d b t p h) s"
    and "map_of (documentMetadata s) docId = Some m"
    and "map_of (documentMetadata (snd (post_document d b t p h s))) docId = Some m'"
  shows "metas (snd (post_document d b t p h s)) m' = metas s m"
proof -
  from assms(2,3) have "d \<noteq> docId" by auto
  with assms(3,4) have "m' = m" by (simp add: post_document_fields update_conv')
  with assms(1) show ?thesis by (simp add: post_document_fields)
qed

lemma lm_put:
  assumes "\<forall>n. map_of (documentMetadata s) n = Some m \<longrightarrow> n = docId"
    and "map_of (documentMetadata s) docId = Some m"
    and "map_of (documentMetadata (snd (put_title d b t s))) docId = Some m'"
    and "d \<noteq> docId"
  shows "metas (snd (put_title d b t s)) m' = metas s m"
proof -
  from assms(2,3) have "m' = m" by (simp add: put_title_fields)
  moreover have "map_of (documentMetadata s) d \<noteq> Some m" using assms(1,4) by blast
  ultimately show ?thesis by (auto simp: put_title_fields split: option.split)
qed

lemma lm_delete:
  assumes "map_of (documentMetadata s) docId = Some m"
    and "map_of (documentMetadata (snd (delete_document d s))) docId = Some m'"
  shows "metas (snd (delete_document d s)) m' = metas s m"
proof -
  from assms have "m' = m"
    by (cases "d = docId") (auto simp: delete_document_fields delete_conv' split: if_splits)
  then show ?thesis by (simp add: delete_document_fields)
qed

lemma lm_close:
  assumes "map_of (documentMetadata s) docId = Some m"
    and "map_of (documentMetadata (ws_close w s)) docId = Some m'"
  shows "lastModified (metas (ws_close w s) m') = lastModified (metas s m)"
proof -
  from assms have "m' = m" by (simp add: ws_close_fields)
  then show ?thesis by (simp add: ws_close_fields split: option.split prod.split)
qed

lemma lm_connection:
  assumes "m < meta_next s"
    and "map_of (documentMetadata s) docId = Some m"
    and "map_of (documentMetadata (wss_connection u c t b s)) docId = Some m'"
  shows "lastModified (metas (wss_connection u c t b s) m') = lastModified (metas s m)"
proof (cases "map_of (documents s) (docName_of u) = None \<and> map_of (documentMetadata s) (docName_of u) = None")
  case True
  with assms(2) have "docName_of u \<noteq> docId" by auto
  with True assms(2,3) have "m' = m" by (simp add: wss_connection_fields update_conv')
  with True assms(1) show ?thesis by (simp add: wss_connection_metas)
next
  case False
  with assms(2,3) have "m' = m" by (auto simp: wss_connection_fields)
  with False show ?thesis by (auto simp: wss_connection_metas split: option.split)
qed

lemma lm_update:
  assumes "\<forall>n. map_of (documentMetadata s) n = Some m \<longrightarrow> n = docId"
    and "map_of (documentMetadata s) docId = Some m"
    and "map_of (documentMetadata (ydoc_update yd t s)) docId = Some m'"
    and "docId \<notin> set (update_handlers (ydocs s yd))"
  shows "metas (ydoc_update yd t s) m' = metas s m"
proof -
  from assms(2,3) have "m' = m" by (simp add: ydoc_update_fields)
  moreover have "\<not> (\<exists>n \<in> set (update_handlers (ydocs s yd)). map_of (documentMetadata s) n = Some m)"
    using assms(1,4) by blast
  ultimately show ?thesis by (simp add: ydoc_update_metas)
qed


lemma last_modified_frame:
  assumes "consistent s" "fresh_event e s"
    and "map_of (documentMetadata s) docId = Some m"
    and "map_of (documentMetadata (step e s)) docId = Some m'"
    and "lastModified (metas (step e s) m') \<noteq> lastModified (metas s m)"
  shows "(\<exists>t now. e = PutTitle docId t now)
       \<or> (\<exists>yd now. e = YDocUpdate yd now \<and> docId \<in> set (update_handlers (ydocs s yd))
            \<and> map_of (documents s) docId = Some yd)"
proof -
  have current: "\<forall>yd. docId \<in> set (update_handlers (ydocs s yd)) \<longrightarrow>
      map_of (documents s) docId = Some yd"
    using assms(1) by (simp add: consistent_def listeners_current_def)
  have alloc: "m < meta_next s"
    using assms(1,3) by (auto simp: consistent_def refs_allocated_def)
  have unshared: "\<forall>n. map_of (documentMetadata s) n = Some m \<longrightarrow> n = docId"
    using assms(1,3) by (auto simp: consistent_def records_unshared_def)
  show ?thesis
  proof (cases e)
    case (PostDocument d b t p h)
    with assms(2-5) lm_post [OF alloc, where d=d and b=b and t=t and p=p and h=h and docId=docId and m'=m'] show ?thesis
      by (simp del: fresh_event.simps)
  next
    case (PutTitle d b t)
    with assms(3-5) lm_put [OF unshared, where d=d and b=b and t=t and m'=m'] show ?thesis
      by (cases "d = docId") simp_all
  next
    case (DeleteDocument d)
    with assms(3-5) lm_delete [where s=s and docId=docId and m=m and d=d and m'=m'] show ?thesis
      by simp
  next
    case (WsConnection u c t b)
    with assms(3-5) lm_connection [OF alloc, where docId=docId and u=u and c=c and t=t and b=b and m'=m'] show ?thesis
      by simp
  next
    case (WsClose w)
    with assms(3-5) lm_close [where s=s and docId=docId and m=m and w=w and m'=m'] show ?thesis
      by simp
  next
    case (YDocUpdate yd t)
    with assms(3-5) lm_update [OF unshared, where yd=yd and t=t and m'=m'] current show ?thesis
      by (cases "docId \<in> set (update_handlers (ydocs s yd))") simp_all
  qed (use assms in simp_all)
qed

lemma update_event_sets_last_modified:
  assumes "n \<in> set (update_handlers (ydocs s yd))"
    and "map_of (documentMetadata s) n = Some m"
  shows "metas (ydoc_update yd now s) m = (metas s m)\<lparr>lastModified := now\<rparr>"
  using assms by (auto simp: ydoc_update_metas)

lemma title_change_sets_last_modified:
  assumes "map_of (documentMetadata s) docId = Some m"
  shows "fst (put_title docId t now s) = (200, Success)
       \<and> documentMetadata (snd (put_title docId t now s)) = documentMetadata s
       \<and> metas (snd (put_title docId t now s)) m = (metas s m)\<lparr>title := t, lastModified := now\<rparr>"
  using assms by (simp add: put_title_def)

lemma keys_only_delete:
  assumes "docId \<in> fst ` set (documentMetadata s)"
    and "docId \<notin> fst ` set (documentMetadata (step e s))"
  shows "e = DeleteDocument docId"
proof (cases e)
  case (PostDocument d b t p h)
  with assms show ?thesis by (simp add: post_document_fields dom_update)
next
  case (PutTitle d b t)
  with assms show ?thesis by (simp add: put_title_fields)
next
  case (DeleteDocument d)
  with assms show ?thesis
    by (cases "d = docId") (auto simp: delete_document_fields keys_delete split: if_splits)
next
  case (WsConnection u c t b)
  with assms show ?thesis
    by (auto simp: wss_connection_fields dom_update split: if_splits)
next
  case (WsClose w)
  with assms show ?thesis by (simp add: ws_close_fields)
next
  case (YDocUpdate yd t)
  with assms show ?thesis by (simp add: ydoc_update_fields)
qed (use assms in simp_all)

lemma delete_removes_both:
  assumes "map_of (documents s) docId = Some yd"
  shows "fst (delete_document docId s) = (200, Success)
       \<and> docId \<notin> fst ` set (documents (snd (delete_document docId s)))
       \<and> docId \<notin> fst ` set (documentMetadata (snd (delete_document docId s)))"
  using assms by (simp add: delete_document_def keys_delete)

lemma connect_reports:
  assumes "map_of (documentMetadata s) (docName_of u) = Some m"
    and "c |\<notin>| collaborators (metas s m)"
  shows "get_document (docName_of u) (wss_connection u c t b s)
       = (200, Doc ((summary s (docName_of u) m)
            \<lparr>collaboratorCount := Suc (collaboratorCount (summary s (docName_of u) m))\<rparr>))"
  using assms
  by (simp add: get_document_def summary_def wss_connection_fields wss_connection_metas
      fcard_finsert_disjoint)

lemma close_reports:
  assumes "sessions_counted s"
    and "sockets s w = Some k" "close_listener k = Some (m, c)"
    and "map_of (documentMetadata s) n = Some m"
  shows "0 < collaboratorCount (summary s n m)
       \<and> get_document n (ws_close w s)
         = (200, Doc ((summary s n m)
              \<lparr>collaboratorCount := collaboratorCount (summary s n m) - 1\<rparr>))"
proof -
  have "c |\<in>| collaborators (metas s m)"
    using assms(1-3) by (auto simp: sessions_counted_def)
  then have "0 < fcard (collaborators (metas s m))"
    by (metis fcard_fminus1_less gr_implies_not_zero neq0_conv)
  with assms \<open>c |\<in>| collaborators (metas s m)\<close> show ?thesis
    by (simp add: get_document_def summary_def ws_close_fields fcard_fminus_fsingleton)
qed

lemma connect_close_roundtrip:
  assumes "map_of (documentMetadata s) (docName_of u) = Some m"
    and "c |\<notin>| collaborators (metas s m)"
  shows "get_document (docName_of u) (ws_close (sock_next s) (wss_connection u c t b s))
       = get_document (docName_of u) s"
proof -
  have "finsert c (collaborators (metas s m)) |-| {|c|} = collaborators (metas s m)"
    using assms(2) by auto
  with assms show ?thesis
    by (simp add: get_document_def summary_def ws_close_fields wss_connection_fields
        wss_connection_metas wss_connection_sockets)
qed

subsection \<open>The example runs, evaluated\<close>

lemma s1_fields:
  "documents (run trace1 init) = [(''d1'', 0)]"
  "documentMetadata (run trace1 init) = [(''d1'', 0)]"
  "meta_next (run trace1 init) = 1"
  "ydoc_next (run trace1 init) = 1"
  "sock_next (run trace1 init) = 1"
  by (simp_all add: trace1_def run_def post_document_fields wss_connection_fields init_def
      docName_of_def)

lemma s1_metas:
  "metas (run trace1 init) 0 =
     \<lparr>title = Some (JString ''Untitled Document''), lastModified = 5, collaborators = {|''u1''|}\<rparr>"
  by (simp add: trace1_def run_def post_document_fields wss_connection_fields wss_connection_metas
      init_def docName_of_def new_metadata_def)

lemma s1_sockets:
  "sockets (run trace1 init) 0 =
     Some \<lparr>room = ''d1'', close_listener = Some (0, ''u1''), sync_args = Some (''d1'', Some 0),
           close_called = False\<rparr>"
  by (simp add: trace1_def run_def post_document_fields wss_connection_fields wss_connection_sockets
      init_def docName_of_def)

lemma s1_ydocs:
  "ydocs (run trace1 init) 0 = \<lparr>destroyed = False, update_handlers = [''d1'']\<rparr>"
  by (simp add: trace1_def run_def post_document_fields wss_connection_fields wss_connection_ydocs
      init_def docName_of_def new_YDoc_def)

lemma s1_fresh: "fresh_run trace1 init"
  by (simp add: trace1_def post_document_fields init_def docName_of_def new_metadata_def)

lemma post_creates:
  "map_of (documents (snd (post_document docId b now p h s))) docId = Some (ydoc_next s)
   \<and> ydocs (snd (post_document docId b now p h s)) (ydoc_next s) = new_YDoc
   \<and> map_of (documentMetadata (snd (post_document docId b now p h s))) docId = Some (meta_next s)
   \<and> metas (snd (post_document docId b now p h s)) (meta_next s)
      = \<lparr>title = Some (case b of None \<Rightarrow> JString ''Untitled Document'' | Some v \<Rightarrow> v),
         lastModified = now, collaborators = {||}\<rparr>"
  by (simp add: post_document_fields update_conv' new_metadata_def)

lemma docName_doc: "docName_of (Some ''/doc'') = ''doc''"
  by (simp add: docName_of_def)

lemma s2_fields:
  "documents (run trace2 init) = [(''doc'', 1)]"
  "documentMetadata (run trace2 init) = [(''doc'', 1)]"
  by (simp_all add: trace2_def run_def delete_document_fields wss_connection_fields init_def
      docName_doc)

lemma s2_metas:
  "metas (run trace2 init) (Suc 0) =
     \<lparr>title = Some (JString ''Untitled Document''), lastModified = 2, collaborators = {|''u2''|}\<rparr>"
  by (simp add: trace2_def run_def delete_document_fields wss_connection_fields wss_connection_metas
      init_def docName_doc)

lemma s2_sockets:
  "sockets (run trace2 init) 0 =
     Some \<lparr>room = ''doc'', close_listener = Some (0, ''u1''), sync_args = Some (''doc'', Some 0),
           close_called = False\<rparr>"
  by (simp add: trace2_def run_def delete_document_fields wss_connection_fields wss_connection_sockets
      init_def docName_doc)

lemma s2_fresh: "fresh_run trace2 init"
  by (simp add: trace2_def delete_document_fields wss_connection_fields init_def docName_doc)

lemma connect_reports_new:
  assumes "map_of (documents s) (docName_of u) = None"
    and "map_of (documentMetadata s) (docName_of u) = None"
  shows "get_document (docName_of u) (wss_connection u c t b s)
       = (200, Doc \<lparr>doc_id = docName_of u, doc_title = Some (JString ''Untitled Document''),
                    doc_lastModified = t, collaboratorCount = 1\<rparr>)"
  using assms
  by (simp add: get_document_def summary_def wss_connection_fields wss_connection_metas
      update_conv' fcard_finsert_if)

subsection \<open>The presence list\<close>

lemma distinct_add_user:
  "distinct (map fst users) \<Longrightarrow> distinct (map fst (add_user me e users))"
  by (simp add: add_user_def distinct_update split: option.split)

lemma distinct_fold_add_user:
  "distinct (map fst users) \<Longrightarrow> distinct (map fst (fold (add_user me) states users))"
  by (induction states arbitrary: users) (simp_all add: distinct_add_user)

lemma keys_add_user:
  "fst ` set (add_user me e users) =
     fst ` set users \<union> (if user (snd e) \<noteq> None \<and> fst e \<noteq> me then {fst e} else {})"
  by (auto simp: add_user_def dom_update split: option.split)

lemma keys_fold_add_user:
  "fst ` set (fold (add_user me) states users) =
     fst ` set users \<union> {k. k \<noteq> me \<and> (\<exists>st. (k, st) \<in> set states \<and> user st \<noteq> None)}"
proof (induction states arbitrary: users)
  case Nil
  show ?case by simp
next
  case (Cons e states)
  show ?case
    by (cases e) (auto simp: Cons.IH keys_add_user)
qed

lemma map_of_add_user:
  "map_of (add_user me e users) k =
     (if k = fst e \<and> fst e \<noteq> me \<and> user (snd e) \<noteq> None
      then Some \<lparr>name = user_name (the (user (snd e))), color = user_color (the (user (snd e))),
                 cursor = cursor_anchor (snd e)\<rparr>
      else map_of users k)"
  by (auto simp: add_user_def update_conv' split: option.split)

lemma map_of_fold_add_user:
  "distinct (map fst states) \<Longrightarrow>
   map_of (fold (add_user me) states users) k =
     (case map_of states k of
        None \<Rightarrow> map_of users k
      | Some st \<Rightarrow>
          (case user st of
             None \<Rightarrow> map_of users k
           | Some u \<Rightarrow>
               if k \<noteq> me
               then Some \<lparr>name = user_name u, color = user_color u, cursor = cursor_anchor st\<rparr>
               else map_of users k))"
proof (induction states arbitrary: users k)
  case Nil
  show ?case by simp
next
  case (Cons e states)
  from Cons.prems have d: "distinct (map fst states)" and n: "fst e \<notin> fst ` set states"
    by simp_all
  from n have none: "map_of states (fst e) = None"
    by (simp add: map_of_eq_None_iff)
  show ?case
  proof (cases "k = fst e")
    case True
    with none show ?thesis
      by (cases e) (auto simp: Cons.IH [OF d] map_of_add_user split: option.split)
  next
    case False
    then show ?thesis
      by (cases e) (auto simp: Cons.IH [OF d] map_of_add_user split: option.split)
  qed
qed

lemma changes_last:
  "connectedUsers (changes (snapshots @ [states]) me p) = fold (add_user me) states []"
  by (simp add: changes_def on_awareness_change_def)


lemma distinct_changes:
  "distinct (map fst (connectedUsers (changes snapshots me page_init)))"
proof (cases snapshots rule: rev_cases)
  case Nil
  then show ?thesis by (simp add: changes_def page_init_def)
next
  case (snoc earlier states)
  then show ?thesis by (simp add: changes_last distinct_fold_add_user)
qed

lemma at_most_one_entry:
  "distinct (map fst xs) \<Longrightarrow> length (filter (\<lambda>e. fst e = k) xs) \<le> 1"
proof (induction xs)
  case Nil
  show ?case by simp
next
  case (Cons x xs)
  from Cons.prems have d: "distinct (map fst xs)" and n: "fst x \<notin> fst ` set xs"
    by simp_all
  show ?case
  proof (cases "fst x = k")
    case True
    with n have "\<forall>e \<in> set xs. fst e \<noteq> k" by (metis imageI)
    then have "filter (\<lambda>e. fst e = k) xs = []"
      by (simp add: filter_empty_conv)
    with True show ?thesis by simp
  next
    case False
    with Cons.IH [OF d] show ?thesis by simp
  qed
qed

section \<open>Claims\<close>

text \<open>
  C9. After every REST operation and every WebSocket or document event, from the start of
  the server on, the \<open>documents\<close> map and the \<open>documentMetadata\<close> map have the same
  set of keys: a \<open>Y.Doc\<close> is registered under an identifier exactly when a metadata
  record is.
\<close>

theorem documents_metadata_same_keys:
  "fst ` set (documents (run es init)) = fst ` set (documentMetadata (run es init))"
  by (rule keys_run) (simp add: init_def)

text \<open>
  C8. A REST request for a document identifier that is present in neither map (read the
  metadata, set the title, delete) is answered with status 404 and the body
  \<open>{error: "Document not found"}\<close>, and the server is exactly as before: both maps,
  every metadata record, every document and every socket. The two reads look the
  identifier up in \<open>documentMetadata\<close>, the delete in \<open>documents\<close>.
\<close>

theorem absent_document_not_found:
  assumes "docId \<notin> fst ` set (documents s)"
    and "docId \<notin> fst ` set (documentMetadata s)"
  shows "get_document docId s = (404, Error ''Document not found'')
       \<and> step (GetDocument docId) s = s
       \<and> put_title docId t now s = ((404, Error ''Document not found''), s)
       \<and> delete_document docId s = ((404, Error ''Document not found''), s)"
proof -
  from assms have "map_of (documents s) docId = None" "map_of (documentMetadata s) docId = None"
    by (simp_all add: map_of_eq_None_iff)
  then show ?thesis
    by (simp add: get_document_def put_title_def delete_document_def not_found_def)
qed

theorem absent_document_not_found_witness:
  "''d1'' \<notin> fst ` set (documents init) \<and> ''d1'' \<notin> fst ` set (documentMetadata init)
   \<and> get_document ''d1'' init = (404, Error ''Document not found'')
   \<and> put_title ''d1'' (Some (JString ''T'')) 7 init = ((404, Error ''Document not found''), init)
   \<and> delete_document ''d1'' init = ((404, Error ''Document not found''), init)"
proof -
  have a: "''d1'' \<notin> fst ` set (documents init)" by (simp add: init_def)
  have b: "''d1'' \<notin> fst ` set (documentMetadata init)" by (simp add: init_def)
  show ?thesis
    using a b absent_document_not_found [OF a b, of "Some (JString ''T'')" 7] by simp
qed

text \<open>
  C10. A WebSocket connection to a name that has no document is served, not refused:
  the handler registers a new \<open>Y.Doc\<close> (a new object, as \<open>new Y.Doc()\<close> made it)
  under the name; if the name has no metadata record it creates one with the title
  \<open>"Untitled Document"\<close> and the current time, and otherwise keeps the record that
  is there; it then goes on as for an existing document: the collaborator is added to the
  record (the only one of a record just created) and the \<open>close\<close> listener is
  registered, \<open>setupWSConnection\<close> is called with the new document and the
  \<open>update\<close> listener is put on it. The handler calls \<open>ws.close()\<close> only in its
  \<open>catch\<close> block, that is when the library's \<open>setupWSConnection\<close> itself throws,
  which does not depend on whether the document existed.
\<close>

theorem connection_creates_missing_document:
  assumes "map_of (documents s) (docName_of requrl) = None"
  shows "map_of (documents (wss_connection requrl c now throws s)) (docName_of requrl)
           = Some (ydoc_next s)
       \<and> ydoc_next (wss_connection requrl c now throws s) = Suc (ydoc_next s)
       \<and> ydocs (wss_connection requrl c now throws s) (ydoc_next s)
           = new_YDoc\<lparr>update_handlers := (if throws then [] else [docName_of requrl])\<rparr>
       \<and> (case map_of (documentMetadata s) (docName_of requrl) of
             None \<Rightarrow>
               map_of (documentMetadata (wss_connection requrl c now throws s)) (docName_of requrl)
                 = Some (meta_next s)
               \<and> metas (wss_connection requrl c now throws s) (meta_next s)
                 = \<lparr>title = Some (JString ''Untitled Document''), lastModified = now,
                    collaborators = {|c|}\<rparr>
               \<and> sockets (wss_connection requrl c now throws s) (sock_next s)
                 = Some \<lparr>room = docName_of requrl, close_listener = Some (meta_next s, c),
                         sync_args = (if throws then None
                                      else Some (docName_of requrl, Some (ydoc_next s))),
                         close_called = throws\<rparr>
           | Some m \<Rightarrow>
               documentMetadata (wss_connection requrl c now throws s) = documentMetadata s
               \<and> metas (wss_connection requrl c now throws s) m
                 = (metas s m)\<lparr>collaborators := finsert c (collaborators (metas s m))\<rparr>
               \<and> sockets (wss_connection requrl c now throws s) (sock_next s)
                 = Some \<lparr>room = docName_of requrl, close_listener = Some (m, c),
                         sync_args = (if throws then None
                                      else Some (docName_of requrl, Some (ydoc_next s))),
                         close_called = throws\<rparr>)"
  using assms
  by (simp add: wss_connection_fields wss_connection_metas wss_connection_ydocs
      wss_connection_sockets update_conv' split: option.split)

theorem connection_creates_missing_document_witness:
  "map_of (documents init) (docName_of (Some ''/notes?x=1'')) = None
   \<and> docName_of (Some ''/notes?x=1'') = ''notes''
   \<and> documents (wss_connection (Some ''/notes?x=1'') ''u1'' 9 False init) = [(''notes'', 0)]
   \<and> documentMetadata (wss_connection (Some ''/notes?x=1'') ''u1'' 9 False init) = [(''notes'', 0)]
   \<and> metas (wss_connection (Some ''/notes?x=1'') ''u1'' 9 False init) 0
        = \<lparr>title = Some (JString ''Untitled Document''), lastModified = 9, collaborators = {|''u1''|}\<rparr>
   \<and> sockets (wss_connection (Some ''/notes?x=1'') ''u1'' 9 False init) 0
        = Some \<lparr>room = ''notes'', close_listener = Some (0, ''u1''),
                sync_args = Some (''notes'', Some 0), close_called = False\<rparr>"
proof -
  have n: "docName_of (Some ''/notes?x=1'') = ''notes''"
    by (simp add: docName_of_def)
  have a: "map_of (documents init) (docName_of (Some ''/notes?x=1'')) = None"
    by (simp add: init_def)
  have d: "documents (wss_connection (Some ''/notes?x=1'') ''u1'' 9 False init) = [(''notes'', 0)]"
    "documentMetadata (wss_connection (Some ''/notes?x=1'') ''u1'' 9 False init) = [(''notes'', 0)]"
    by (simp_all add: n wss_connection_fields init_def)
  show ?thesis
    using a d connection_creates_missing_document [OF a, of "''u1''" 9 False]
    by (simp add: n init_def)
qed

text \<open>
  C3. The timestamp is to be updated on every accepted title change and on every accepted
  content delta. The title change does it. For the content delta the handler puts its
  \<open>update\<close> listener (lines 174-180, "Update last modified timestamp when document
  changes") on the \<open>Y.Doc\<close> of \<open>documents\<close> and hands that document to
  \<open>setupWSConnection\<close> as \<open>doc\<close>, an option the function does not have. In
  \<open>trace1\<close> the client of socket 0 is connected to \<open>d1\<close> and the listener is on the
  document of \<open>d1\<close>; a content delta of that client at time 9 leaves \<open>lastModified\<close> at
  5. It would be 9 if the library read the option, and a title change at time 9 makes
  it 9.
\<close>

theorem client_delta_leaves_last_modified:
  "sockets (run trace1 init) 0
     = Some \<lparr>room = ''d1'', close_listener = Some (0, ''u1''),
             sync_args = Some (''d1'', Some 0), close_called = False\<rparr>
   \<and> map_of (documents (run trace1 init)) ''d1'' = Some 0
   \<and> ydocs (run trace1 init) 0 = \<lparr>destroyed = False, update_handlers = [''d1'']\<rparr>
   \<and> map_of (documentMetadata (run trace1 init)) ''d1'' = Some 0
   \<and> lastModified (metas (run trace1 init) 0) = 5
   \<and> lastModified (metas (step (ClientDelta 0 9) (run trace1 init)) 0) = 5
   \<and> lastModified (metas (client_delta True 0 9 (run trace1 init)) 0) = 9
   \<and> lastModified (metas (step (PutTitle ''d1'' (Some (JString ''Notes'')) 9) (run trace1 init)) 0) = 9"
  by (simp add: s1_sockets s1_ydocs s1_metas s1_fields client_delta_def doc_option_declared_def
      ydoc_update_metas put_title_fields)

text \<open>
  C2. The metadata record is to be mutated on a title change or a content update. From
  the same defect as in C3, a content update of a client does not mutate it: in
  \<open>trace1\<close> the record of \<open>d1\<close> is the same, field by field, after a content delta of
  the client of socket 0, and \<open>documentMetadata\<close> is the same map. Creation, title
  change and deletion do to the record what the claim says (\<open>post_creates\<close>,
  \<open>title_change_sets_last_modified\<close>, \<open>delete_removes_both\<close>,
  \<open>keys_only_delete\<close>).
\<close>

theorem client_delta_leaves_metadata:
  "map_of (documentMetadata (run trace1 init)) ''d1'' = Some 0
   \<and> metas (run trace1 init) 0
     = \<lparr>title = Some (JString ''Untitled Document''), lastModified = 5,
        collaborators = {|''u1''|}\<rparr>
   \<and> metas (step (ClientDelta 0 9) (run trace1 init)) 0
     = \<lparr>title = Some (JString ''Untitled Document''), lastModified = 5,
        collaborators = {|''u1''|}\<rparr>
   \<and> documentMetadata (step (ClientDelta 0 9) (run trace1 init))
     = documentMetadata (run trace1 init)"
  by (simp add: s1_metas s1_fields)

text \<open>
  C4, as the code has it. In every state the server reaches: a WebSocket connection to a
  document raises the collaborator count that the REST interface reports for it by exactly
  one (from nothing to one when the connection creates the document) and leaves its title
  and timestamp as they are; the \<open>close\<close> of a connection lowers the reported count of
  its document by exactly one, and leaves title and timestamp as they are, provided the
  document still has the metadata record that the connection captured when it was
  established, that is, the document was not deleted in between; and a connection that
  closes right after it was established gives back the report from before it.
\<close>

theorem collaborator_count_connect_close:
  assumes "fresh_run es init" and "s = run es init"
  shows "(\<forall>u c now b m. map_of (documentMetadata s) (docName_of u) = Some m \<longrightarrow>
            fresh_event (WsConnection u c now b) s \<longrightarrow>
            get_document (docName_of u) s = (200, Doc (summary s (docName_of u) m))
          \<and> get_document (docName_of u) (wss_connection u c now b s)
            = (200, Doc ((summary s (docName_of u) m)
                 \<lparr>collaboratorCount := Suc (collaboratorCount (summary s (docName_of u) m))\<rparr>)))
       \<and> (\<forall>u c now b. map_of (documentMetadata s) (docName_of u) = None \<longrightarrow>
            get_document (docName_of u) (wss_connection u c now b s)
            = (200, Doc \<lparr>doc_id = docName_of u, doc_title = Some (JString ''Untitled Document''),
                         doc_lastModified = now, collaboratorCount = 1\<rparr>))
       \<and> (\<forall>w k m c. sockets s w = Some k \<longrightarrow> close_listener k = Some (m, c) \<longrightarrow>
            map_of (documentMetadata s) (room k) = Some m \<longrightarrow>
            get_document (room k) s = (200, Doc (summary s (room k) m))
          \<and> 0 < collaboratorCount (summary s (room k) m)
          \<and> get_document (room k) (ws_close w s)
            = (200, Doc ((summary s (room k) m)
                 \<lparr>collaboratorCount := collaboratorCount (summary s (room k) m) - 1\<rparr>)))
       \<and> (\<forall>u c now b m. map_of (documentMetadata s) (docName_of u) = Some m \<longrightarrow>
            fresh_event (WsConnection u c now b) s \<longrightarrow>
            get_document (docName_of u) (ws_close (sock_next s) (wss_connection u c now b s))
            = get_document (docName_of u) s)"
proof -
  have c: "consistent s"
    using assms consistent_run [OF consistent_init] by simp
  then have sc: "sessions_counted s"
    by (simp add: consistent_def)
  have p1: "\<forall>u c now b m. map_of (documentMetadata s) (docName_of u) = Some m \<longrightarrow>
            fresh_event (WsConnection u c now b) s \<longrightarrow>
            get_document (docName_of u) s = (200, Doc (summary s (docName_of u) m))
          \<and> get_document (docName_of u) (wss_connection u c now b s)
            = (200, Doc ((summary s (docName_of u) m)
                 \<lparr>collaboratorCount := Suc (collaboratorCount (summary s (docName_of u) m))\<rparr>))"
    using connect_reports by (simp add: get_document_def)
  have p2: "\<forall>u c now b. map_of (documentMetadata s) (docName_of u) = None \<longrightarrow>
            get_document (docName_of u) (wss_connection u c now b s)
            = (200, Doc \<lparr>doc_id = docName_of u, doc_title = Some (JString ''Untitled Document''),
                         doc_lastModified = now, collaboratorCount = 1\<rparr>)"
  proof (intro allI impI)
    fix u c now b
    assume n: "map_of (documentMetadata s) (docName_of u) = None"
    with c have "map_of (documents s) (docName_of u) = None"
      by (simp add: consistent_def map_of_eq_None_iff)
    then show "get_document (docName_of u) (wss_connection u c now b s)
            = (200, Doc \<lparr>doc_id = docName_of u, doc_title = Some (JString ''Untitled Document''),
                         doc_lastModified = now, collaboratorCount = 1\<rparr>)"
      using n by (rule connect_reports_new)
  qed
  have p3: "\<forall>w k m c. sockets s w = Some k \<longrightarrow> close_listener k = Some (m, c) \<longrightarrow>
            map_of (documentMetadata s) (room k) = Some m \<longrightarrow>
            get_document (room k) s = (200, Doc (summary s (room k) m))
          \<and> 0 < collaboratorCount (summary s (room k) m)
          \<and> get_document (room k) (ws_close w s)
            = (200, Doc ((summary s (room k) m)
                 \<lparr>collaboratorCount := collaboratorCount (summary s (room k) m) - 1\<rparr>))"
    using close_reports [OF sc] by (simp add: get_document_def)
  have p4: "\<forall>u c now b m. map_of (documentMetadata s) (docName_of u) = Some m \<longrightarrow>
            fresh_event (WsConnection u c now b) s \<longrightarrow>
            get_document (docName_of u) (ws_close (sock_next s) (wss_connection u c now b s))
            = get_document (docName_of u) s"
    using connect_close_roundtrip by simp
  from p1 p2 p3 p4 show ?thesis by blast
qed


theorem collaborator_count_connect_close_witness:
  "fresh_run trace1 init
   \<and> map_of (documentMetadata (run trace1 init)) (docName_of (Some ''/d1'')) = Some 0
   \<and> fresh_event (WsConnection (Some ''/d1'') ''u2'' 7 False) (run trace1 init)
   \<and> get_document ''d1'' (run trace1 init)
        = (200, Doc \<lparr>doc_id = ''d1'', doc_title = Some (JString ''Untitled Document''),
                     doc_lastModified = 5, collaboratorCount = 1\<rparr>)
   \<and> get_document ''d1'' (wss_connection (Some ''/d1'') ''u2'' 7 False (run trace1 init))
        = (200, Doc \<lparr>doc_id = ''d1'', doc_title = Some (JString ''Untitled Document''),
                     doc_lastModified = 5, collaboratorCount = 2\<rparr>)
   \<and> map_of (documentMetadata (run trace1 init)) (docName_of (Some ''/d9'')) = None
   \<and> get_document ''d9'' (wss_connection (Some ''/d9'') ''u2'' 7 False (run trace1 init))
        = (200, Doc \<lparr>doc_id = ''d9'', doc_title = Some (JString ''Untitled Document''),
                     doc_lastModified = 7, collaboratorCount = 1\<rparr>)
   \<and> sockets (run trace1 init) 0
        = Some \<lparr>room = ''d1'', close_listener = Some (0, ''u1''),
                sync_args = Some (''d1'', Some 0), close_called = False\<rparr>
   \<and> get_document ''d1'' (ws_close 0 (run trace1 init))
        = (200, Doc \<lparr>doc_id = ''d1'', doc_title = Some (JString ''Untitled Document''),
                     doc_lastModified = 5, collaboratorCount = 0\<rparr>)
   \<and> get_document ''d1'' (ws_close (sock_next (run trace1 init))
          (wss_connection (Some ''/d1'') ''u2'' 7 False (run trace1 init)))
        = get_document ''d1'' (run trace1 init)"
proof -
  have f: "fresh_run trace1 init" by (rule s1_fresh)
  have n1: "docName_of (Some ''/d1'') = ''d1''" and n9: "docName_of (Some ''/d9'') = ''d9''"
    by (simp_all add: docName_of_def)
  have dm: "map_of (documentMetadata (run trace1 init)) (docName_of (Some ''/d1'')) = Some 0"
    and dm9: "map_of (documentMetadata (run trace1 init)) (docName_of (Some ''/d9'')) = None"
    by (simp_all add: s1_fields n1 n9)
  have fe: "fresh_event (WsConnection (Some ''/d1'') ''u2'' 7 False) (run trace1 init)"
    by (simp add: s1_fields s1_metas n1)
  have cl: "close_listener \<lparr>room = ''d1'', close_listener = Some (0, ''u1''),
                sync_args = Some (''d1'', Some 0), close_called = False\<rparr> = Some (0, ''u1'')"
    by simp
  have rm: "map_of (documentMetadata (run trace1 init))
              (room \<lparr>room = ''d1'', close_listener = Some (0, ''u1''),
                sync_args = Some (''d1'', Some 0), close_called = False\<rparr>) = Some 0"
    by (simp add: s1_fields)
  have sm: "summary (run trace1 init) ''d1'' 0
      = \<lparr>doc_id = ''d1'', doc_title = Some (JString ''Untitled Document''),
                     doc_lastModified = 5, collaboratorCount = 1\<rparr>"
    by (simp add: summary_def s1_metas fcard_finsert_if)
  note T = collaborator_count_connect_close [OF f refl]
  note A = T [THEN conjunct1, rule_format, OF dm fe]
  note B = T [THEN conjunct2, THEN conjunct1, rule_format, OF dm9, of "''u2''" 7 False]
  note C = T [THEN conjunct2, THEN conjunct2, THEN conjunct1, rule_format, OF s1_sockets cl rm]
  note D = T [THEN conjunct2, THEN conjunct2, THEN conjunct2, rule_format, OF dm fe]
  show ?thesis
    using f dm dm9 fe A B C D
    by (simp add: n1 n9 sm s1_sockets)
qed

text \<open>
  C4 as stated fails when the document is deleted while a connection to it is open:
  \<open>DELETE\<close> closes no socket, the \<open>close\<close> listener keeps the metadata object it
  captured, and a later connection to the same name gets a new record. In \<open>trace2\<close>
  socket 0 was opened to \<open>doc\<close>; when it closes, the count reported for \<open>doc\<close> stays 1.
\<close>

theorem stale_close_counterexample:
  "fresh_run trace2 init
   \<and> sockets (run trace2 init) 0
        = Some \<lparr>room = ''doc'', close_listener = Some (0, ''u1''),
                sync_args = Some (''doc'', Some 0), close_called = False\<rparr>
   \<and> get_document ''doc'' (run trace2 init)
        = (200, Doc \<lparr>doc_id = ''doc'', doc_title = Some (JString ''Untitled Document''),
                     doc_lastModified = 2, collaboratorCount = 1\<rparr>)
   \<and> get_document ''doc'' (ws_close 0 (run trace2 init))
        = (200, Doc \<lparr>doc_id = ''doc'', doc_title = Some (JString ''Untitled Document''),
                     doc_lastModified = 2, collaboratorCount = 1\<rparr>)
   \<and> sockets (ws_close 0 (run trace2 init)) 0 = None"
  by (simp add: s2_fresh s2_sockets s2_fields s2_metas get_document_def summary_def ws_close_fields
      fcard_finsert_if)

text \<open>
  C5. After any sequence of \<open>change\<close> events the presence list of an observer holds
  at most one entry for any session identifier; and when the awareness states hold a
  record with a \<open>user\<close> for another session, the entry the list has for that session
  after the event is made from exactly that record, whatever was shown for the session
  before: a refreshed record replaces the prior one.
\<close>

theorem presence_one_entry_per_session:
  "(\<forall>k. length (filter (\<lambda>e. fst e = k) (connectedUsers (changes snapshots me page_init))) \<le> 1)
   \<and> (\<forall>states k st u. distinct (map fst states) \<longrightarrow> map_of states k = Some st \<longrightarrow>
          user st = Some u \<longrightarrow> k \<noteq> me \<longrightarrow>
          map_of (connectedUsers (changes (snapshots @ [states]) me p)) k
            = Some \<lparr>name = user_name u, color = user_color u, cursor = cursor_anchor st\<rparr>)"
proof -
  have a: "\<forall>k. length (filter (\<lambda>e. fst e = k) (connectedUsers (changes snapshots me page_init))) \<le> 1"
    using at_most_one_entry [OF distinct_changes] by blast
  have b: "\<forall>states k st u. distinct (map fst states) \<longrightarrow> map_of states k = Some st \<longrightarrow>
          user st = Some u \<longrightarrow> k \<noteq> me \<longrightarrow>
          map_of (connectedUsers (changes (snapshots @ [states]) me p)) k
            = Some \<lparr>name = user_name u, color = user_color u, cursor = cursor_anchor st\<rparr>"
    by (simp add: changes_last map_of_fold_add_user)
  from a b show ?thesis by blast
qed

theorem presence_one_entry_per_session_witness:
  "distinct (map fst [(1::nat, \<lparr>user = Some \<lparr>user_name = ''Quick Bear'', user_color = ''#4ECDC4''\<rparr>,
                               cursor_anchor = None\<rparr>),
                      (2, \<lparr>user = Some \<lparr>user_name = ''Smart Fox'', user_color = ''#FF6B6B''\<rparr>,
                          cursor_anchor = Some 4\<rparr>)])
   \<and> connectedUsers (changes
        [[(2, \<lparr>user = Some \<lparr>user_name = ''Smart Fox'', user_color = ''#FF6B6B''\<rparr>,
              cursor_anchor = None\<rparr>)],
         [(1, \<lparr>user = Some \<lparr>user_name = ''Quick Bear'', user_color = ''#4ECDC4''\<rparr>,
              cursor_anchor = None\<rparr>),
          (2, \<lparr>user = Some \<lparr>user_name = ''Smart Fox'', user_color = ''#FF6B6B''\<rparr>,
              cursor_anchor = Some 4\<rparr>)]] 1 page_init)
      = [(2, \<lparr>name = ''Smart Fox'', color = ''#FF6B6B'', cursor = Some 4\<rparr>)]
   \<and> length (filter (\<lambda>e. fst e = 2) (connectedUsers (changes
        [[(2, \<lparr>user = Some \<lparr>user_name = ''Smart Fox'', user_color = ''#FF6B6B''\<rparr>,
              cursor_anchor = None\<rparr>)],
         [(1, \<lparr>user = Some \<lparr>user_name = ''Quick Bear'', user_color = ''#4ECDC4''\<rparr>,
              cursor_anchor = None\<rparr>),
          (2, \<lparr>user = Some \<lparr>user_name = ''Smart Fox'', user_color = ''#FF6B6B''\<rparr>,
              cursor_anchor = Some 4\<rparr>)]] 1 page_init))) = 1"
proof -
  have d: "distinct (map fst [(1::nat, \<lparr>user = Some \<lparr>user_name = ''Quick Bear'', user_color = ''#4ECDC4''\<rparr>,
                               cursor_anchor = None\<rparr>),
                      (2, \<lparr>user = Some \<lparr>user_name = ''Smart Fox'', user_color = ''#FF6B6B''\<rparr>,
                          cursor_anchor = Some 4\<rparr>)])"
    by simp
  note T = presence_one_entry_per_session
    [of "[[(2, \<lparr>user = Some \<lparr>user_name = ''Smart Fox'', user_color = ''#FF6B6B''\<rparr>,
              cursor_anchor = None\<rparr>)],
         [(1, \<lparr>user = Some \<lparr>user_name = ''Quick Bear'', user_color = ''#4ECDC4''\<rparr>,
              cursor_anchor = None\<rparr>),
          (2, \<lparr>user = Some \<lparr>user_name = ''Smart Fox'', user_color = ''#FF6B6B''\<rparr>,
              cursor_anchor = Some 4\<rparr>)]]" 1 page_init]
  show ?thesis
    using d T [THEN conjunct1, rule_format, of 2]
    by (simp add: changes_def on_awareness_change_def add_user_def page_init_def)
qed

text \<open>
  C6. Every \<open>change\<close> event rebuilds the presence list from the awareness states of
  that moment alone: its sessions are exactly the other clients' sessions that have a
  state with a \<open>user\<close>. A session that is not among the states, because the awareness
  layer has dropped it after its liveness window or its disconnect, is not in the list
  after the event, whatever the list held before; and \<open>userCount\<close> is the number of
  states.
\<close>

theorem presence_rebuilt_from_live_states:
  "fst ` set (connectedUsers (changes (snapshots @ [states]) me p))
     = {k. k \<noteq> me \<and> (\<exists>st. (k, st) \<in> set states \<and> user st \<noteq> None)}
   \<and> (\<forall>k. k \<notin> fst ` set states \<longrightarrow>
          k \<notin> fst ` set (connectedUsers (changes (snapshots @ [states]) me p)))
   \<and> (\<forall>k. k \<notin> fst ` set (connectedUsers (changes (snapshots @ [AList.delete k states]) me p)))
   \<and> userCount (changes (snapshots @ [states]) me p) = length states"
proof -
  have keys: "\<And>sts. fst ` set (connectedUsers (changes (snapshots @ [sts]) me p))
     = {k. k \<noteq> me \<and> (\<exists>st. (k, st) \<in> set sts \<and> user st \<noteq> None)}"
    by (simp add: changes_last keys_fold_add_user)
  have absent: "\<forall>k. k \<notin> fst ` set states \<longrightarrow>
          k \<notin> fst ` set (connectedUsers (changes (snapshots @ [states]) me p))"
    unfolding keys by force
  have expired: "\<forall>k. k \<notin> fst ` set (connectedUsers (changes (snapshots @ [AList.delete k states]) me p))"
  proof
    fix k
    have "k \<notin> fst ` set (AList.delete k states)"
      by (rule delete_notin_dom)
    then show "k \<notin> fst ` set (connectedUsers (changes (snapshots @ [AList.delete k states]) me p))"
      unfolding keys by force
  qed
  have count: "userCount (changes (snapshots @ [states]) me p) = length states"
    by (simp add: changes_def on_awareness_change_def)
  from keys [of states] absent expired count show ?thesis by blast
qed

theorem presence_rebuilt_from_live_states_witness:
  "connectedUsers (changes
        [[(1, \<lparr>user = Some \<lparr>user_name = ''Quick Bear'', user_color = ''#4ECDC4''\<rparr>,
              cursor_anchor = None\<rparr>),
          (2, \<lparr>user = Some \<lparr>user_name = ''Smart Fox'', user_color = ''#FF6B6B''\<rparr>,
              cursor_anchor = Some 4\<rparr>)]] 1 page_init)
      = [(2, \<lparr>name = ''Smart Fox'', color = ''#FF6B6B'', cursor = Some 4\<rparr>)]
   \<and> 2 \<notin> fst ` set (AList.delete 2
        [(1::nat, \<lparr>user = Some \<lparr>user_name = ''Quick Bear'', user_color = ''#4ECDC4''\<rparr>,
              cursor_anchor = None\<rparr>),
          (2, \<lparr>user = Some \<lparr>user_name = ''Smart Fox'', user_color = ''#FF6B6B''\<rparr>,
              cursor_anchor = Some 4\<rparr>)])
   \<and> 2 \<notin> fst ` set (connectedUsers (changes
        ([[(1, \<lparr>user = Some \<lparr>user_name = ''Quick Bear'', user_color = ''#4ECDC4''\<rparr>,
              cursor_anchor = None\<rparr>),
          (2, \<lparr>user = Some \<lparr>user_name = ''Smart Fox'', user_color = ''#FF6B6B''\<rparr>,
              cursor_anchor = Some 4\<rparr>)]]
         @ [AList.delete 2
             [(1, \<lparr>user = Some \<lparr>user_name = ''Quick Bear'', user_color = ''#4ECDC4''\<rparr>,
                cursor_anchor = None\<rparr>),
              (2, \<lparr>user = Some \<lparr>user_name = ''Smart Fox'', user_color = ''#FF6B6B''\<rparr>,
                cursor_anchor = Some 4\<rparr>)]]) 1 page_init))
   \<and> connectedUsers (changes
        ([[(1, \<lparr>user = Some \<lparr>user_name = ''Quick Bear'', user_color = ''#4ECDC4''\<rparr>,
              cursor_anchor = None\<rparr>),
          (2, \<lparr>user = Some \<lparr>user_name = ''Smart Fox'', user_color = ''#FF6B6B''\<rparr>,
              cursor_anchor = Some 4\<rparr>)]]
         @ [AList.delete 2
             [(1, \<lparr>user = Some \<lparr>user_name = ''Quick Bear'', user_color = ''#4ECDC4''\<rparr>,
                cursor_anchor = None\<rparr>),
              (2, \<lparr>user = Some \<lparr>user_name = ''Smart Fox'', user_color = ''#FF6B6B''\<rparr>,
                cursor_anchor = Some 4\<rparr>)]]) 1 page_init) = []"
proof -
  have a: "2 \<notin> fst ` set (AList.delete 2
        [(1::nat, \<lparr>user = Some \<lparr>user_name = ''Quick Bear'', user_color = ''#4ECDC4''\<rparr>,
              cursor_anchor = None\<rparr>),
          (2, \<lparr>user = Some \<lparr>user_name = ''Smart Fox'', user_color = ''#FF6B6B''\<rparr>,
              cursor_anchor = Some 4\<rparr>)])"
    by simp
  note T = presence_rebuilt_from_live_states
    [of "[[(1, \<lparr>user = Some \<lparr>user_name = ''Quick Bear'', user_color = ''#4ECDC4''\<rparr>,
              cursor_anchor = None\<rparr>),
          (2, \<lparr>user = Some \<lparr>user_name = ''Smart Fox'', user_color = ''#FF6B6B''\<rparr>,
              cursor_anchor = Some 4\<rparr>)]]"
        "AList.delete 2
             [(1, \<lparr>user = Some \<lparr>user_name = ''Quick Bear'', user_color = ''#4ECDC4''\<rparr>,
                cursor_anchor = None\<rparr>),
              (2, \<lparr>user = Some \<lparr>user_name = ''Smart Fox'', user_color = ''#FF6B6B''\<rparr>,
                cursor_anchor = Some 4\<rparr>)]" 1 page_init]
  show ?thesis
    using a T [THEN conjunct2, THEN conjunct1, rule_format, OF a]
    by (simp add: changes_def on_awareness_change_def add_user_def page_init_def)
qed

end
